theory Spec2Isabelle
  imports Main "HOL-Library.Word" "HOL-Library.AList"
begin

unbundle bit_operations_syntax

section \<open>Slash-separated paths: Go's \<^verbatim>\<open>path\<close> package\<close>

text \<open>
  The backend builds every remote path with \<^verbatim>\<open>path.Join\<close>, \<^verbatim>\<open>path.Clean\<close> and
  \<^verbatim>\<open>path.Dir\<close> of the Go standard library. They are purely lexical. \<^verbatim>\<open>Clean\<close> is
  modelled on the elements between slashes, following the rules of its documentation:
  empty elements and \<^verbatim>\<open>.\<close> are dropped, an inner \<^verbatim>\<open>..\<close> removes the element before it,
  a \<^verbatim>\<open>..\<close> that begins a rooted path is dropped, a \<^verbatim>\<open>..\<close> that begins a relative
  path is kept, and the empty result is \<^verbatim>\<open>.\<close>. A Go string is a byte sequence, so it is
  a \<^typ>\<open>string\<close> here and \<^const>\<open>length\<close> counts bytes as \<^verbatim>\<open>len\<close> does.
\<close>

definition slash :: char where
  "slash = CHR ''/''"

text \<open>
  \<^verbatim>\<open>strings.Split(s, sep)\<close> for a separator of one byte: the elements between the
  separators, never the empty list.
\<close>

fun Split :: "string \<Rightarrow> char \<Rightarrow> string list" where
  "Split [] sep = [[]]"
| "Split (c # cs) sep =
     (if c = sep then [] # Split cs sep
      else (case Split cs sep of
              [] \<Rightarrow> [[c]]
            | w # ws \<Rightarrow> (c # w) # ws))"

abbreviation split_slash :: "string \<Rightarrow> string list" where
  "split_slash path \<equiv> Split path slash"

text \<open>\<^verbatim>\<open>strings.Join(elems, "/")\<close>.\<close>

fun join_slash :: "string list \<Rightarrow> string" where
  "join_slash [] = []"
| "join_slash [x] = x"
| "join_slash (x # y # ys) = x @ slash # join_slash (y # ys)"

text \<open>
  One element of the path read by \<^verbatim>\<open>Clean\<close>. The output so far is the list of the
  elements kept, the last one first. A \<^verbatim>\<open>..\<close> backtracks over the last element kept
  unless that is itself a \<^verbatim>\<open>..\<close> (the buffer's \<^verbatim>\<open>dotdot\<close> mark); where it cannot
  backtrack it is appended on a relative path and dropped on a rooted one.
\<close>

fun clean_elem :: "bool \<Rightarrow> string list \<Rightarrow> string \<Rightarrow> string list" where
  "clean_elem rooted out e =
     (if e = [] \<or> e = ''.'' then out
      else if e = ''..'' then
        (case out of
           [] \<Rightarrow> (if rooted then [] else [''..''])
         | t # ts \<Rightarrow>
             (if t \<noteq> ''..'' then ts
              else if rooted then out
              else ''..'' # out))
      else e # out)"

definition clean_out :: "bool \<Rightarrow> string list \<Rightarrow> string" where
  "clean_out rooted out =
     (if rooted then slash # join_slash (rev out)
      else if out = [] then ''.''
      else join_slash (rev out))"

definition Clean :: "string \<Rightarrow> string" where
  "Clean path =
     (if path = [] then ''.''
      else let rooted = (hd path = slash)
           in clean_out rooted (foldl (clean_elem rooted) [] (split_slash path)))"

text \<open>
  \<^verbatim>\<open>path.Join\<close>: the elements from the first non-empty one on are joined with slashes and
  the result is cleaned; with no non-empty element the result is the empty string.
\<close>

definition path_Join :: "string list \<Rightarrow> string" where
  "path_Join elem =
     (case dropWhile (\<lambda>e. e = []) elem of
        [] \<Rightarrow> []
      | e # es \<Rightarrow> Clean (join_slash (e # es)))"

text \<open>\<^verbatim>\<open>path.Dir\<close>: everything up to and including the last slash, cleaned.\<close>

definition path_Dir :: "string \<Rightarrow> string" where
  "path_Dir path = Clean (rev (dropWhile (\<lambda>c. c \<noteq> slash) (rev path)))"

text \<open>
  The package's own \<^verbatim>\<open>Join\<close>: \<^verbatim>\<open>path.Clean(path.Join(parts...))\<close>.
\<close>

definition Join :: "string list \<Rightarrow> string" where
  "Join parts = Clean (path_Join parts)"

text \<open>
  Two invariants of the output of \<^const>\<open>Clean\<close>: its elements are never empty, never
  \<^verbatim>\<open>.\<close> and hold no slash; on a rooted path none of them is \<^verbatim>\<open>..\<close>.
\<close>

definition proper :: "string list \<Rightarrow> bool" where
  "proper out = list_all (\<lambda>e. e \<noteq> [] \<and> e \<noteq> ''.'' \<and> slash \<notin> set e) out"

definition no_dotdot :: "string list \<Rightarrow> bool" where
  "no_dotdot out = list_all (\<lambda>e. e \<noteq> ''..'') out"


section \<open>Errors\<close>

text \<open>
  A Go \<^verbatim>\<open>error\<close> is an interface value; \<^verbatim>\<open>nil\<close> is \<^const>\<open>None\<close> of
  \<^typ>\<open>'a option\<close>. The constructors are the dynamic types the backend tells apart:
  the sentinels \<^verbatim>\<open>os.ErrNotExist\<close> and \<^verbatim>\<open>syscall.ENOENT\<close>, the three wrappers
  \<^verbatim>\<open>os.IsNotExist\<close> looks through, the transport's \<^verbatim>\<open>*sftp.StatusError\<close> with its
  code and message, an error made by \<^verbatim>\<open>errors.New\<close> or \<^verbatim>\<open>errors.Errorf\<close> (its
  message, and the errors printed into it with \<^verbatim>\<open>%v\<close>), and an error wrapped with a
  message by \<^verbatim>\<open>errors.Wrap\<close>.
\<close>

datatype error =
    ErrNotExist
  | ENOENT
  | PathError string string error
  | LinkError string string string error
  | SyscallError string error
  | StatusError nat string
  | ErrorNew string
  | Errorf string "error option list"
  | Wrapped error string

text \<open>\<^verbatim>\<open>errors.Wrap(err, msg)\<close> is \<^verbatim>\<open>nil\<close> for a \<^verbatim>\<open>nil\<close> error.\<close>

definition Wrap :: "error option \<Rightarrow> string \<Rightarrow> error option" where
  "Wrap err msg = (case err of None \<Rightarrow> None | Some e \<Rightarrow> Some (Wrapped e msg))"

text \<open>\<^verbatim>\<open>errors.Cause\<close> unwraps as long as the error has a cause.\<close>

fun Cause_err :: "error \<Rightarrow> error" where
  "Cause_err (Wrapped e msg) = Cause_err e"
| "Cause_err e = e"

definition Cause :: "error option \<Rightarrow> error option" where
  "Cause err = map_option Cause_err err"

text \<open>
  \<^verbatim>\<open>os.IsNotExist\<close>: the error under one \<^verbatim>\<open>*PathError\<close>, \<^verbatim>\<open>*LinkError\<close> or
  \<^verbatim>\<open>*SyscallError\<close> is \<^verbatim>\<open>ENOENT\<close> or \<^verbatim>\<open>ErrNotExist\<close>.
\<close>

fun underlyingError :: "error \<Rightarrow> error" where
  "underlyingError (PathError opn path e) = e"
| "underlyingError (LinkError opn old new e) = e"
| "underlyingError (SyscallError call e) = e"
| "underlyingError e = e"

definition os_IsNotExist :: "error option \<Rightarrow> bool" where
  "os_IsNotExist err =
     (case err of
        None \<Rightarrow> False
      | Some e \<Rightarrow> underlyingError e = ENOENT \<or> underlyingError e = ErrNotExist)"

text \<open>
  The text of a \<^verbatim>\<open>*sftp.StatusError\<close>:
  \<^verbatim>\<open>fmt.Sprintf("sftp: %q (%v)", s.msg, fx(s.Code))\<close>. The quoting escapes the double
  quote and the backslash; the status names are those of the SFTP protocol.
\<close>

definition dquote :: char where
  "dquote = CHR 0x22"

definition backslash :: char where
  "backslash = CHR 0x5C"

definition Quote :: "string \<Rightarrow> string" where
  "Quote s =
     dquote # concat (map (\<lambda>ch. if ch = dquote \<or> ch = backslash then [backslash, ch] else [ch]) s)
       @ [dquote]"

definition fx_String :: "nat \<Rightarrow> string" where
  "fx_String code =
     (if code = 0 then ''SSH_FX_OK''
      else if code = 1 then ''SSH_FX_EOF''
      else if code = 2 then ''SSH_FX_NO_SUCH_FILE''
      else if code = 3 then ''SSH_FX_PERMISSION_DENIED''
      else if code = 4 then ''SSH_FX_FAILURE''
      else if code = 5 then ''SSH_FX_BAD_MESSAGE''
      else if code = 6 then ''SSH_FX_NO_CONNECTION''
      else if code = 7 then ''SSH_FX_CONNECTION_LOST''
      else if code = 8 then ''SSH_FX_OP_UNSUPPORTED''
      else ''unknown'')"

definition StatusError_Error :: "nat \<Rightarrow> string \<Rightarrow> string" where
  "StatusError_Error code msg = ''sftp: '' @ Quote msg @ '' ('' @ fx_String code @ '')''"

text \<open>
  \<^verbatim>\<open>SFTP.IsNotExist\<close>: the error is a \<^verbatim>\<open>*sftp.StatusError\<close> whose text is that of
  the transport's "No such file" status.
\<close>

definition IsNotExist :: "error option \<Rightarrow> bool" where
  "IsNotExist err =
     (case err of
        Some (StatusError code msg) \<Rightarrow>
          StatusError_Error code msg =
            ''sftp: '' @ [dquote] @ ''No such file'' @ [dquote] @ '' (SSH_FX_NO_SUCH_FILE)''
      | _ \<Rightarrow> False)"

section \<open>Handles\<close>

text \<open>
  \<^verbatim>\<open>restic.FileType\<close> is a string type with six named constants; any other string is
  \<open>OtherType\<close>. A \<^verbatim>\<open>restic.Handle\<close> is a type and a name.
\<close>

datatype FileType =
    DataFile | SnapshotFile | IndexFile | LockFile | KeyFile | ConfigFile
  | OtherType string

record Handle =
  Type :: FileType
  Name :: string

text \<open>
  Modelled from the spec: \<^verbatim>\<open>restic.Handle.Valid\<close> is not among the source files. The
  spec's validity check: the type is one of the six, and the name is non-empty except
  for Config.
\<close>

definition Valid :: "Handle \<Rightarrow> error option" where
  "Valid h =
     (case Type h of
        OtherType t \<Rightarrow> Some (ErrorNew ''invalid Type'')
      | ConfigFile \<Rightarrow> None
      | _ \<Rightarrow> (if Name h = [] then Some (ErrorNew ''invalid Name'') else None))"

section \<open>The protocol client\<close>

text \<open>
  \<^verbatim>\<open>os.FileMode\<close> is a 32-bit word whose top bit marks a directory;
  \<^verbatim>\<open>os.FileInfo\<close> gives a name, a size and a mode.
\<close>

type_synonym FileMode = "32 word"

type_synonym byte = "8 word"

definition ModeDir :: FileMode where
  "ModeDir = push_bit 31 1"

record FileInfo =
  fi_Name :: string
  fi_Size :: int
  fi_Mode :: FileMode

definition IsDir :: "FileInfo \<Rightarrow> bool" where
  "IsDir fi = (fi_Mode fi AND ModeDir \<noteq> 0)"

text \<open>
  An open \<^verbatim>\<open>*sftp.File\<close>: the path it was opened at and the offset of the next
  read or write.
\<close>

record File =
  file_path :: string
  file_offset :: int

text \<open>
  An \<^verbatim>\<open>io.Reader\<close> handed to \<^verbatim>\<open>Save\<close>: the bytes it yields, and the error it ends with
  when that is not the end of the stream.
\<close>

record Reader =
  rd_bytes :: "byte list"
  rd_err :: "error option"

text \<open>
  The backend sees the remote side only through \<^verbatim>\<open>*sftp.Client\<close> and the files it
  opens. The client is a record of operations on a state \<open>'s\<close> of the world outside the
  backend (the remote file system, the subprocess, whatever other callers do): each
  takes the state and returns its result with the state after the call. The fields carry
  the prefix \<open>c_\<close> (the backend's field \<^verbatim>\<open>c\<close>) and, for the methods of an open file,
  \<open>f_\<close>. \<open>io_Copy\<close> is \<^verbatim>\<open>io.Copy(f, rd)\<close>.
\<close>

record 's Client =
  c_Lstat :: "string \<Rightarrow> 's \<Rightarrow> (error + FileInfo) \<times> 's"
  c_Mkdir :: "string \<Rightarrow> 's \<Rightarrow> error option \<times> 's"
  c_Chmod :: "string \<Rightarrow> FileMode \<Rightarrow> 's \<Rightarrow> error option \<times> 's"
  c_OpenFile :: "string \<Rightarrow> int \<Rightarrow> 's \<Rightarrow> (error + File) \<times> 's"
  c_Open :: "string \<Rightarrow> 's \<Rightarrow> (error + File) \<times> 's"
  c_ReadDir :: "string \<Rightarrow> 's \<Rightarrow> (error + FileInfo list) \<times> 's"
  c_Remove :: "string \<Rightarrow> 's \<Rightarrow> error option \<times> 's"
  c_Close :: "'s \<Rightarrow> error option \<times> 's"
  io_Copy :: "File \<Rightarrow> Reader \<Rightarrow> 's \<Rightarrow> error option \<times> 's"
  f_Close :: "File \<Rightarrow> 's \<Rightarrow> error option \<times> 's"
  f_Seek :: "File \<Rightarrow> int \<Rightarrow> int \<Rightarrow> 's \<Rightarrow> (error + File) \<times> 's"

text \<open>The flags of \<^verbatim>\<open>os.OpenFile\<close>.\<close>

definition O_WRONLY :: int where
  "O_WRONLY = 1"

definition O_CREATE :: int where
  "O_CREATE = 64"

definition O_EXCL :: int where
  "O_EXCL = 128"

section \<open>The backend\<close>

text \<open>
  \<^verbatim>\<open>backend.Layout\<close> is an interface embedded in the backend; \<^verbatim>\<open>Save\<close> asks it for
  the file name of a handle.
\<close>

record Layout =
  Filename :: "Handle \<Rightarrow> string"

record Config =
  Host :: string
  User :: string
  Path :: string
  Layout_name :: string
  Command :: string

text \<open>
  The struct \<^verbatim>\<open>SFTP\<close>, its fields prefixed with \<open>r_\<close> (the receiver's name):
  the client \<^verbatim>\<open>c\<close>, the root path \<^verbatim>\<open>p\<close>, the channel \<^verbatim>\<open>result\<close>, the command
  \<^verbatim>\<open>cmd\<close>, the layout and the configuration. The channel holds at most the one error
  the waiting goroutine sends when the subprocess exits (\<^verbatim>\<open>nil\<close> after a clean exit).
  The backend receives from it in three ways, each an operation on the state of the
  world: \<open>r_result\<close> is the receive that does not block (\<^const>\<open>None\<close>: nothing to
  receive yet), \<open>r_result_timeout\<close> the receive of \<^verbatim>\<open>Close\<close> that gives up after
  \<^verbatim>\<open>closeTimeout\<close> (\<^const>\<open>None\<close>: the timeout came first), and \<open>r_result_wait\<close> the
  receive that blocks (\<^const>\<open>None\<close>: it blocks for ever). \<open>r_Kill\<close> is
  \<^verbatim>\<open>cmd.Process.Kill\<close>. \<open>r_Modes_Dir\<close> is the constant \<^verbatim>\<open>backend.Modes.Dir\<close>, whose
  declaration is not among the source files: it is a parameter.
\<close>

record 's SFTP =
  r_c :: "'s Client"
  r_p :: string
  r_result :: "'s \<Rightarrow> error option option \<times> 's"
  r_result_timeout :: "'s \<Rightarrow> error option option \<times> 's"
  r_result_wait :: "'s \<Rightarrow> (error option \<times> 's) option"
  r_Kill :: "'s \<Rightarrow> error option \<times> 's"
  r_Layout :: Layout
  r_Config :: Config
  r_Modes_Dir :: FileMode

text \<open>
  Modelled from the spec: the table \<^verbatim>\<open>backend.Paths\<close> is not among the source files.
  The names are those of the spec's directory skeleton.
\<close>

definition Paths_Data :: string where
  "Paths_Data = ''data''"

definition Paths_Snapshots :: string where
  "Paths_Snapshots = ''snapshots''"

definition Paths_Index :: string where
  "Paths_Index = ''index''"

definition Paths_Locks :: string where
  "Paths_Locks = ''locks''"

definition Paths_Keys :: string where
  "Paths_Keys = ''keys''"

definition Paths_Temp :: string where
  "Paths_Temp = ''temp''"

definition Paths_Config :: string where
  "Paths_Config = ''config''"

definition paths :: "string \<Rightarrow> string list" where
  "paths dir =
     [dir,
      Join [dir, Paths_Data],
      Join [dir, Paths_Snapshots],
      Join [dir, Paths_Index],
      Join [dir, Paths_Locks],
      Join [dir, Paths_Keys],
      Join [dir, Paths_Temp]]"

text \<open>\<^verbatim>\<open>clientError\<close>: the error of the subprocess if it has exited, without waiting.\<close>

definition clientError :: "'s SFTP \<Rightarrow> 's \<Rightarrow> error option \<times> 's" where
  "clientError r s =
     (case r_result r s of
        (Some err, s1) \<Rightarrow> (err, s1)
      | (None, s1) \<Rightarrow> (None, s1))"

text \<open>\<^verbatim>\<open>dirname\<close> and \<^verbatim>\<open>filename\<close>: the directory and the path of a handle.\<close>

definition dirname :: "'s SFTP \<Rightarrow> Handle \<Rightarrow> string" where
  "dirname r h =
     (let n = (case Type h of
                 DataFile \<Rightarrow>
                   (if length (Name h) > 2 then Join [Paths_Data, take 2 (Name h)]
                    else Paths_Data)
               | SnapshotFile \<Rightarrow> Paths_Snapshots
               | IndexFile \<Rightarrow> Paths_Index
               | LockFile \<Rightarrow> Paths_Locks
               | KeyFile \<Rightarrow> Paths_Keys
               | _ \<Rightarrow> [])
      in Join [r_p r, n])"

definition filename :: "'s SFTP \<Rightarrow> Handle \<Rightarrow> string" where
  "filename r h =
     (if Type h = ConfigFile then Join [r_p r, ''config'']
      else Join [dirname r h, Name h])"


text \<open>
  \<^verbatim>\<open>mkdirAll\<close>. The recursion on \<^verbatim>\<open>path.Dir(dir)\<close> ends only at a path whose
  \<^verbatim>\<open>Lstat\<close> succeeds, so the function is partial: \<^const>\<open>None\<close> is a call that never
  returns. The errors of the recursive call and of \<^verbatim>\<open>Mkdir\<close> are kept only for the
  message of the error returned when the second \<^verbatim>\<open>Lstat\<close> fails.
\<close>

partial_function (option) mkdirAll ::
  "'s SFTP \<Rightarrow> string \<Rightarrow> FileMode \<Rightarrow> 's \<Rightarrow> (error option \<times> 's) option" where
  "mkdirAll r dir mode s =
     (case c_Lstat (r_c r) dir s of
        (Inr fi, s1) \<Rightarrow>
          (if IsDir fi then Some (None, s1)
           else Some (Some (Errorf (''mkdirAll('' @ dir @ ''): entry exists but is not a directory'') []), s1))
      | (Inl err, s1) \<Rightarrow>
          Option.bind (mkdirAll r (path_Dir dir) (r_Modes_Dir r) s1)
            (\<lambda>(errMkdirAll, s2).
               (case c_Mkdir (r_c r) dir s2 of
                  (errMkdir, s3) \<Rightarrow>
                    (case c_Lstat (r_c r) dir s3 of
                       (Inl err', s4) \<Rightarrow>
                         Some (Some (Errorf (''mkdirAll('' @ dir @ ''): unable to create directories: %v, %v'')
                                       [errMkdirAll, errMkdir]), s4)
                     | (Inr fi, s4) \<Rightarrow>
                         (if \<not> IsDir fi then
                            Some (Some (Errorf (''mkdirAll('' @ dir @ ''): entry exists but is not a directory'') []), s4)
                          else Some (c_Chmod (r_c r) dir mode s4))))))"

declare mkdirAll.simps [code]

text \<open>
  \<^verbatim>\<open>Save\<close>. The file name comes from the embedded layout (\<^verbatim>\<open>r.Filename(h)\<close>). A
  result \<^const>\<open>None\<close> is a call that never returns (through \<^const>\<open>mkdirAll\<close>).
\<close>

definition Save :: "'s SFTP \<Rightarrow> Handle \<Rightarrow> Reader \<Rightarrow> 's \<Rightarrow> (error option \<times> 's) option" where
  "Save r h rd s =
     (case clientError r s of
        (Some err, s1) \<Rightarrow> Some (Some err, s1)
      | (None, s1) \<Rightarrow>
          (case Valid h of
             Some err \<Rightarrow> Some (Some err, s1)
           | None \<Rightarrow>
               (let fname = Filename (r_Layout r) h in
                Option.bind
                  (if Type h = DataFile then mkdirAll r (path_Dir fname) (r_Modes_Dir r) s1
                   else Some (None, s1))
                  (\<lambda>(errDir, s2).
                     (case errDir of
                        Some err \<Rightarrow> Some (Some err, s2)
                      | None \<Rightarrow>
                          (case c_OpenFile (r_c r) fname (O_CREATE OR O_EXCL OR O_WRONLY) s2 of
                             (Inl err, s3) \<Rightarrow> Some (Some (Wrapped err ''OpenFile''), s3)
                           | (Inr f, s3) \<Rightarrow>
                               (case io_Copy (r_c r) f rd s3 of
                                  (Some err, s4) \<Rightarrow>
                                    (case f_Close (r_c r) f s4 of
                                       (errClose, s5) \<Rightarrow> Some (Some (Wrapped err ''Write''), s5))
                                | (None, s4) \<Rightarrow>
                                    (case f_Close (r_c r) f s4 of
                                       (Some err, s5) \<Rightarrow> Some (Some (Wrapped err ''Close''), s5)
                                     | (None, s5) \<Rightarrow>
                                         (case c_Lstat (r_c r) fname s5 of
                                            (Inl err, s6) \<Rightarrow> Some (Some (Wrapped err ''Lstat''), s6)
                                          | (Inr fi, s6) \<Rightarrow>
                                              (case c_Chmod (r_c r) fname (fi_Mode fi AND NOT 146) s6 of
                                                 (err, s7) \<Rightarrow> Some (Wrap err ''Chmod'', s7)))))))))))"

text \<open>
  \<^verbatim>\<open>Load\<close> returns an \<^verbatim>\<open>io.ReadCloser\<close>: the open file, or the open file bounded by
  \<^verbatim>\<open>backend.LimitReadCloser\<close>.
\<close>

datatype ReadCloser =
    FileReader File
  | LimitReadCloser File int

definition Load :: "'s SFTP \<Rightarrow> Handle \<Rightarrow> int \<Rightarrow> int \<Rightarrow> 's \<Rightarrow> (error + ReadCloser) \<times> 's" where
  "Load r h len offset s =
     (case Valid h of
        Some err \<Rightarrow> (Inl err, s)
      | None \<Rightarrow>
          (if offset < 0 then (Inl (ErrorNew ''offset is negative''), s)
           else
             (case c_Open (r_c r) (filename r h) s of
                (Inl err, s1) \<Rightarrow> (Inl err, s1)
              | (Inr f, s1) \<Rightarrow>
                  (case (if offset > 0 then f_Seek (r_c r) f offset 0 s1 else (Inr f, s1)) of
                     (Inl err, s2) \<Rightarrow>
                       (case f_Close (r_c r) f s2 of (errClose, s3) \<Rightarrow> (Inl err, s3))
                   | (Inr f', s2) \<Rightarrow>
                       (if len > 0 then (Inr (LimitReadCloser f' len), s2)
                        else (Inr (FileReader f'), s2))))))"

text \<open>\<^verbatim>\<open>Stat\<close> returns the size of the file (\<^verbatim>\<open>restic.FileInfo{Size: fi.Size()}\<close>).\<close>

definition Stat :: "'s SFTP \<Rightarrow> Handle \<Rightarrow> 's \<Rightarrow> (error + int) \<times> 's" where
  "Stat r h s =
     (case clientError r s of
        (Some err, s1) \<Rightarrow> (Inl err, s1)
      | (None, s1) \<Rightarrow>
          (case Valid h of
             Some err \<Rightarrow> (Inl err, s1)
           | None \<Rightarrow>
               (case c_Lstat (r_c r) (filename r h) s1 of
                  (Inl err, s2) \<Rightarrow> (Inl (Wrapped err ''Lstat''), s2)
                | (Inr fi, s2) \<Rightarrow> (Inr (fi_Size fi), s2))))"

text \<open>\<^verbatim>\<open>Test\<close> returns a boolean and an error.\<close>

definition Test :: "'s SFTP \<Rightarrow> Handle \<Rightarrow> 's \<Rightarrow> (bool \<times> error option) \<times> 's" where
  "Test r h s =
     (case clientError r s of
        (Some err, s1) \<Rightarrow> ((False, Some err), s1)
      | (None, s1) \<Rightarrow>
          (case c_Lstat (r_c r) (filename r h) s1 of
             (res, s2) \<Rightarrow>
               (let err = (case res of Inl e \<Rightarrow> Some e | Inr fi \<Rightarrow> None) in
                if os_IsNotExist (Cause err) then ((False, None), s2)
                else if err \<noteq> None then ((False, Wrap err ''Lstat''), s2)
                else ((True, None), s2))))"

definition Remove :: "'s SFTP \<Rightarrow> Handle \<Rightarrow> 's \<Rightarrow> error option \<times> 's" where
  "Remove r h s =
     (case clientError r s of
        (Some err, s1) \<Rightarrow> (Some err, s1)
      | (None, s1) \<Rightarrow> c_Remove (r_c r) (filename r h) s1)"


text \<open>
  \<^verbatim>\<open>List\<close> starts a goroutine that sends names on a channel until the names run out or
  the consumer closes \<^verbatim>\<open>done\<close>. The consumer is the number of names it receives before
  it closes \<^verbatim>\<open>done\<close> (\<^const>\<open>None\<close>: it never does). \<open>send\<close> is the loop over the
  names of one directory: the names sent, whether the goroutine returned at \<^verbatim>\<open>done\<close>,
  and what the consumer still receives.
\<close>

fun send :: "string list \<Rightarrow> nat option \<Rightarrow> string list \<times> bool \<times> nat option" where
  "send [] d = ([], False, d)"
| "send (file # items) None =
     (case send items None of (sent, cancelled, d') \<Rightarrow> (file # sent, cancelled, d'))"
| "send (file # items) (Some 0) = ([], True, Some 0)"
| "send (file # items) (Some (Suc k)) =
     (case send items (Some k) of (sent, cancelled, d') \<Rightarrow> (file # sent, cancelled, d'))"

text \<open>The loop over the shard directories of \<^verbatim>\<open>data\<close>.\<close>

fun read_files ::
  "'s SFTP \<Rightarrow> string \<Rightarrow> string list \<Rightarrow> nat option \<Rightarrow> 's \<Rightarrow> string list \<times> bool \<times> nat option \<times> 's" where
  "read_files r basedir [] d s = ([], False, d, s)"
| "read_files r basedir (dir # dirs) d s =
     (case c_ReadDir (r_c r) (Join [basedir, dir]) s of
        (Inl err, s1) \<Rightarrow> read_files r basedir dirs d s1
      | (Inr entries, s1) \<Rightarrow>
          (case send (map fi_Name entries) d of
             (sent, True, d1) \<Rightarrow> (sent, True, d1, s1)
           | (sent, False, d1) \<Rightarrow>
               (case read_files r basedir dirs d1 s1 of
                  (rest, cancelled, d2, s2) \<Rightarrow> (sent @ rest, cancelled, d2, s2))))"

text \<open>
  \<^verbatim>\<open>List\<close>: the names the consumer receives before the channel is closed. The channel
  carries names only, so the goroutine has no way to report an error.
\<close>

definition List :: "'s SFTP \<Rightarrow> FileType \<Rightarrow> nat option \<Rightarrow> 's \<Rightarrow> string list \<times> 's" where
  "List r t d s =
     (if t = DataFile then
        (let basedir = dirname r \<lparr>Type = t, Name = []\<rparr> in
         (case c_ReadDir (r_c r) basedir s of
            (Inl err, s1) \<Rightarrow> ([], s1)
          | (Inr list1, s1) \<Rightarrow>
              (case read_files r basedir (map fi_Name list1) d s1 of
                 (sent, cancelled, d1, s2) \<Rightarrow> (sent, s2))))
      else
        (case c_ReadDir (r_c r) (dirname r \<lparr>Type = t, Name = []\<rparr>) s of
           (Inl err, s1) \<Rightarrow> ([], s1)
         | (Inr entries, s1) \<Rightarrow>
             (case send (map fi_Name entries) d of
                (sent, cancelled, d1) \<Rightarrow> (sent, s1))))"

text \<open>
  \<^verbatim>\<open>Close\<close> on a receiver that may be \<^verbatim>\<open>nil\<close>. The error of the client's
  \<^verbatim>\<open>Close\<close> is only logged. \<^const>\<open>None\<close> is a call that never returns (the last
  receive blocks for ever).
\<close>

definition Close :: "'s SFTP option \<Rightarrow> 's \<Rightarrow> (error option \<times> 's) option" where
  "Close ro s =
     (case ro of
        None \<Rightarrow> Some (None, s)
      | Some r \<Rightarrow>
          (case c_Close (r_c r) s of
             (err, s1) \<Rightarrow>
               (case r_result_timeout r s1 of
                  (Some errExit, s2) \<Rightarrow> Some (errExit, s2)
                | (None, s2) \<Rightarrow>
                    (case r_Kill r s2 of
                       (Some errKill, s3) \<Rightarrow> Some (Some errKill, s3)
                     | (None, s3) \<Rightarrow>
                         (case r_result_wait r s3 of
                            None \<Rightarrow> None
                          | Some (errIgnored, s4) \<Rightarrow> Some (None, s4))))))"

text \<open>
  What \<^verbatim>\<open>Open\<close> needs of the machine the backend runs on. \<^verbatim>\<open>SplitShellArgs\<close> and
  \<^verbatim>\<open>backend.ParseLayout\<close> are functions of the repository that are not among the
  source files, and \<^verbatim>\<open>startClient\<close> runs the subprocess and the handshake of the
  protocol: the three are parameters. \<^verbatim>\<open>startClient\<close> returns the backend with its
  client, command and channel set.
\<close>

record 's Host =
  SplitShellArgs :: "string \<Rightarrow> error + (string \<times> string list)"
  startClient :: "string \<Rightarrow> string list \<Rightarrow> 's \<Rightarrow> (error + 's SFTP) \<times> 's"
  ParseLayout :: "'s SFTP \<Rightarrow> string \<Rightarrow> string \<Rightarrow> string \<Rightarrow> 's \<Rightarrow> (error + Layout) \<times> 's"

definition defaultLayout :: string where
  "defaultLayout = ''default''"

definition buildSSHCommand :: "'s Host \<Rightarrow> Config \<Rightarrow> error + (string \<times> string list)" where
  "buildSSHCommand host cfg =
     (if Command cfg \<noteq> [] then SplitShellArgs host (Command cfg)
      else
        (let hostport = Split (Host cfg) (CHR '':'');
             args = [hd hostport];
             args = (if length hostport > 1 then args @ [''-p'', hostport ! 1] else args);
             args = (if User cfg \<noteq> [] then args @ [''-l''] @ [User cfg] else args);
             args = args @ [''-s''];
             args = args @ [''sftp'']
         in Inr (''ssh'', args)))"

text \<open>The loop of \<^verbatim>\<open>Open\<close> over \<^verbatim>\<open>paths(cfg.Path)\<close>.\<close>

fun check_paths :: "'s SFTP \<Rightarrow> string list \<Rightarrow> 's \<Rightarrow> error option \<times> 's" where
  "check_paths r [] s = (None, s)"
| "check_paths r (d # ds) s =
     (case c_Lstat (r_c r) d s of
        (Inl err, s1) \<Rightarrow> (Some (Errorf (d @ '' does not exist'') []), s1)
      | (Inr fi, s1) \<Rightarrow> check_paths r ds s1)"

definition Open :: "'s Host \<Rightarrow> Config \<Rightarrow> 's \<Rightarrow> (error + 's SFTP) \<times> 's" where
  "Open host cfg s =
     (case buildSSHCommand host cfg of
        Inl err \<Rightarrow> (Inl err, s)
      | Inr (cmd, args) \<Rightarrow>
          (case startClient host cmd args s of
             (Inl err, s1) \<Rightarrow> (Inl err, s1)
           | (Inr sftp, s1) \<Rightarrow>
               (case ParseLayout host sftp (Layout_name cfg) defaultLayout (Path cfg) s1 of
                  (Inl err, s2) \<Rightarrow> (Inl err, s2)
                | (Inr l, s2) \<Rightarrow>
                    (case check_paths (sftp\<lparr>r_Layout := l\<rparr>) (paths (Path cfg)) s2 of
                       (Some err, s3) \<Rightarrow> (Inl err, s3)
                     | (None, s3) \<Rightarrow>
                         (Inr (sftp\<lparr>r_Layout := l, r_Config := cfg, r_p := Path cfg\<rparr>), s3)))))"


section \<open>A remote file system\<close>

text \<open>
  The claims about what is stored need a remote side. This one is a file system that
  only the backend changes: a table from paths to files and directories, the slot of
  the channel \<^verbatim>\<open>result\<close>, and the list of the requests the client has sent. It
  answers as an SFTP server on a POSIX file system does, and the client reports the
  protocol's "no such file" status of a request on a path as \<^verbatim>\<open>os.ErrNotExist\<close>, as
  the library does, and the one of listing a directory as the status error itself.
\<close>

datatype request =
    Req_Lstat string
  | Req_Mkdir string
  | Req_Chmod string FileMode
  | Req_OpenFile string int
  | Req_Open string
  | Req_ReadDir string
  | Req_Remove string
  | Req_Write string "byte list"
  | Req_CloseFile string
  | Req_Close

record node =
  n_Mode :: FileMode
  n_Data :: "byte list"

record remote =
  files :: "(string \<times> node) list"
  exit_signal :: "error option option"
  requests :: "request list"

definition issue :: "request \<Rightarrow> remote \<Rightarrow> remote" where
  "issue q s = s\<lparr>requests := requests s @ [q]\<rparr>"

definition node_at :: "remote \<Rightarrow> string \<Rightarrow> node option" where
  "node_at s path = map_of (files s) path"

definition is_dir :: "remote \<Rightarrow> string \<Rightarrow> bool" where
  "is_dir s path =
     (case node_at s path of
        None \<Rightarrow> False
      | Some n \<Rightarrow> n_Mode n AND ModeDir \<noteq> 0)"

definition base_name :: "string \<Rightarrow> string" where
  "base_name path = rev (takeWhile (\<lambda>c. c \<noteq> slash) (rev path))"

definition info :: "string \<Rightarrow> node \<Rightarrow> FileInfo" where
  "info path n =
     \<lparr>fi_Name = base_name path, fi_Size = int (length (n_Data n)), fi_Mode = n_Mode n\<rparr>"

definition Failure :: error where
  "Failure = StatusError 4 ''Failure''"

definition NoSuchFile :: error where
  "NoSuchFile = StatusError 2 ''No such file''"

definition fs_Lstat :: "string \<Rightarrow> remote \<Rightarrow> (error + FileInfo) \<times> remote" where
  "fs_Lstat path s =
     (case node_at s path of
        None \<Rightarrow> (Inl ErrNotExist, issue (Req_Lstat path) s)
      | Some n \<Rightarrow> (Inr (info path n), issue (Req_Lstat path) s))"

text \<open>A new directory has the mode 0755, a new file the mode 0644.\<close>

definition fs_Mkdir :: "string \<Rightarrow> remote \<Rightarrow> error option \<times> remote" where
  "fs_Mkdir path s =
     (if node_at s path \<noteq> None then (Some Failure, issue (Req_Mkdir path) s)
      else if \<not> is_dir s (path_Dir path) then (Some ErrNotExist, issue (Req_Mkdir path) s)
      else
        (None,
         issue (Req_Mkdir path)
           (s\<lparr>files := AList.update path \<lparr>n_Mode = ModeDir OR 493, n_Data = []\<rparr> (files s)\<rparr>)))"

text \<open>A chmod sets the twelve permission bits and keeps the rest of the mode.\<close>

definition fs_Chmod :: "string \<Rightarrow> FileMode \<Rightarrow> remote \<Rightarrow> error option \<times> remote" where
  "fs_Chmod path mode s =
     (case node_at s path of
        None \<Rightarrow> (Some ErrNotExist, issue (Req_Chmod path mode) s)
      | Some n \<Rightarrow>
          (None,
           issue (Req_Chmod path mode)
             (s\<lparr>files :=
                  AList.update path (n\<lparr>n_Mode := (n_Mode n AND NOT 4095) OR (mode AND 4095)\<rparr>)
                    (files s)\<rparr>)))"

definition fs_OpenFile :: "string \<Rightarrow> int \<Rightarrow> remote \<Rightarrow> (error + File) \<times> remote" where
  "fs_OpenFile path flags s =
     (case node_at s path of
        Some n \<Rightarrow>
          (if flags AND O_CREATE \<noteq> 0 \<and> flags AND O_EXCL \<noteq> 0 then
             (Inl Failure, issue (Req_OpenFile path flags) s)
           else if n_Mode n AND ModeDir \<noteq> 0 then
             (Inl Failure, issue (Req_OpenFile path flags) s)
           else (Inr \<lparr>file_path = path, file_offset = 0\<rparr>, issue (Req_OpenFile path flags) s))
      | None \<Rightarrow>
          (if flags AND O_CREATE = 0 \<or> \<not> is_dir s (path_Dir path) then
             (Inl ErrNotExist, issue (Req_OpenFile path flags) s)
           else
             (Inr \<lparr>file_path = path, file_offset = 0\<rparr>,
              issue (Req_OpenFile path flags)
                (s\<lparr>files := AList.update path \<lparr>n_Mode = 420, n_Data = []\<rparr> (files s)\<rparr>))))"

definition fs_Open :: "string \<Rightarrow> remote \<Rightarrow> (error + File) \<times> remote" where
  "fs_Open path s =
     (case node_at s path of
        None \<Rightarrow> (Inl ErrNotExist, issue (Req_Open path) s)
      | Some n \<Rightarrow> (Inr \<lparr>file_path = path, file_offset = 0\<rparr>, issue (Req_Open path) s))"

text \<open>
  The directory of an entry is \<^const>\<open>path_Dir\<close> of its path; the root is not an entry
  of itself.
\<close>

definition fs_ReadDir :: "string \<Rightarrow> remote \<Rightarrow> (error + FileInfo list) \<times> remote" where
  "fs_ReadDir dir s =
     (case node_at s dir of
        None \<Rightarrow> (Inl NoSuchFile, issue (Req_ReadDir dir) s)
      | Some n \<Rightarrow>
          (if n_Mode n AND ModeDir = 0 then (Inl Failure, issue (Req_ReadDir dir) s)
           else
             (Inr (map (\<lambda>(path, n'). info path n')
                     (filter (\<lambda>(path, n'). path \<noteq> dir \<and> path_Dir path = dir) (files s))),
              issue (Req_ReadDir dir) s)))"

definition fs_Remove :: "string \<Rightarrow> remote \<Rightarrow> error option \<times> remote" where
  "fs_Remove path s =
     (case node_at s path of
        None \<Rightarrow> (Some ErrNotExist, issue (Req_Remove path) s)
      | Some n \<Rightarrow>
          (if filter (\<lambda>(path', n'). path' \<noteq> path \<and> path_Dir path' = path) (files s) \<noteq> [] then
             (Some Failure, issue (Req_Remove path) s)
           else (None, issue (Req_Remove path) (s\<lparr>files := AList.delete path (files s)\<rparr>))))"

text \<open>
  \<^verbatim>\<open>io.Copy(f, rd)\<close> writes the bytes the reader yields at the offset of the file and
  returns the error the reader ended with.
\<close>

definition write_at :: "nat \<Rightarrow> byte list \<Rightarrow> byte list \<Rightarrow> byte list" where
  "write_at off bs old =
     take off old @ replicate (off - length old) 0 @ bs @ drop (off + length bs) old"

definition fs_io_Copy :: "File \<Rightarrow> Reader \<Rightarrow> remote \<Rightarrow> error option \<times> remote" where
  "fs_io_Copy f rd s =
     (case node_at s (file_path f) of
        None \<Rightarrow> (Some Failure, issue (Req_Write (file_path f) (rd_bytes rd)) s)
      | Some n \<Rightarrow>
          (rd_err rd,
           issue (Req_Write (file_path f) (rd_bytes rd))
             (s\<lparr>files :=
                  AList.update (file_path f)
                    (n\<lparr>n_Data := write_at (nat (file_offset f)) (rd_bytes rd) (n_Data n)\<rparr>)
                    (files s)\<rparr>)))"

definition fs_f_Close :: "File \<Rightarrow> remote \<Rightarrow> error option \<times> remote" where
  "fs_f_Close f s = (None, issue (Req_CloseFile (file_path f)) s)"

text \<open>
  \<^verbatim>\<open>File.Seek\<close> moves the offset kept in the file object; only a seek from the end
  asks the server (for the size).
\<close>

definition fs_f_Seek :: "File \<Rightarrow> int \<Rightarrow> int \<Rightarrow> remote \<Rightarrow> (error + File) \<times> remote" where
  "fs_f_Seek f offset whence s =
     (if whence = 0 then (Inr (f\<lparr>file_offset := offset\<rparr>), s)
      else if whence = 1 then (Inr (f\<lparr>file_offset := file_offset f + offset\<rparr>), s)
      else if whence = 2 then
        (case node_at s (file_path f) of
           None \<Rightarrow> (Inl ErrNotExist, s)
         | Some n \<Rightarrow> (Inr (f\<lparr>file_offset := int (length (n_Data n)) + offset\<rparr>), s))
      else (Inl (ErrorNew ''sftp: unimplemented seek whence''), s))"

definition fs_Close :: "remote \<Rightarrow> error option \<times> remote" where
  "fs_Close s = (None, issue Req_Close s)"

definition fs_client :: "remote Client" where
  "fs_client =
     \<lparr>c_Lstat = fs_Lstat, c_Mkdir = fs_Mkdir, c_Chmod = fs_Chmod, c_OpenFile = fs_OpenFile,
      c_Open = fs_Open, c_ReadDir = fs_ReadDir, c_Remove = fs_Remove, c_Close = fs_Close,
      io_Copy = fs_io_Copy, f_Close = fs_f_Close, f_Seek = fs_f_Seek\<rparr>"

text \<open>The channel: a receive takes the error out of the slot.\<close>

definition fs_result :: "remote \<Rightarrow> error option option \<times> remote" where
  "fs_result s = (exit_signal s, s\<lparr>exit_signal := None\<rparr>)"

definition fs_result_wait :: "remote \<Rightarrow> (error option \<times> remote) option" where
  "fs_result_wait s =
     (case exit_signal s of
        None \<Rightarrow> None
      | Some err \<Rightarrow> Some (err, s\<lparr>exit_signal := None\<rparr>))"

text \<open>Killing the subprocess makes the waiting goroutine send its error.\<close>

definition fs_Kill :: "remote \<Rightarrow> error option \<times> remote" where
  "fs_Kill s = (None, s\<lparr>exit_signal := Some (Some (Wrapped (ErrorNew ''signal: killed'') ''cmd.Wait''))\<rparr>)"

text \<open>
  Reading a stream returned by \<^verbatim>\<open>Load\<close> to its end (\<^verbatim>\<open>ioutil.ReadAll\<close>): the bytes
  of the file from the offset on.

  Modelled from the spec: \<^verbatim>\<open>backend.LimitReadCloser\<close> is not among the source files.
  The spec's bounded reader yields at most \<open>n\<close> bytes and then signals the end of the
  stream even if more remote data exists.
\<close>

definition file_bytes :: "File \<Rightarrow> remote \<Rightarrow> byte list" where
  "file_bytes f s =
     (case node_at s (file_path f) of
        None \<Rightarrow> []
      | Some n \<Rightarrow> drop (nat (file_offset f)) (n_Data n))"

fun ReadAll :: "ReadCloser \<Rightarrow> remote \<Rightarrow> byte list" where
  "ReadAll (FileReader f) s = file_bytes f s"
| "ReadAll (LimitReadCloser f n) s = take (nat n) (file_bytes f s)"

text \<open>
  Modelled from the spec: the default layout (\<^verbatim>\<open>backend.DefaultLayout\<close>) is not among
  the source files. The spec's path of a handle: \<^verbatim>\<open>root/config\<close> for Config, else
  \<^verbatim>\<open>root/<typeDir>[/<shard>]/<name>\<close>, the shard being the first two characters of the
  name of a Data file whose name is longer than two characters, all joined with
  join-and-clean semantics.
\<close>

definition typeDir :: "FileType \<Rightarrow> string" where
  "typeDir t =
     (case t of
        DataFile \<Rightarrow> ''data''
      | SnapshotFile \<Rightarrow> ''snapshots''
      | IndexFile \<Rightarrow> ''index''
      | LockFile \<Rightarrow> ''locks''
      | KeyFile \<Rightarrow> ''keys''
      | _ \<Rightarrow> [])"

definition spec_path :: "string \<Rightarrow> Handle \<Rightarrow> string" where
  "spec_path root h =
     (if Type h = ConfigFile then Join [root, ''config'']
      else if Type h = DataFile \<and> length (Name h) > 2 then
        Join [root, typeDir (Type h), take 2 (Name h), Name h]
      else Join [root, typeDir (Type h), Name h])"

definition DefaultLayout :: "string \<Rightarrow> Layout" where
  "DefaultLayout root = \<lparr>Filename = spec_path root\<rparr>"

text \<open>A backend on the remote file system, as \<^verbatim>\<open>Open\<close> returns it.\<close>

definition fs_backend :: "Config \<Rightarrow> Layout \<Rightarrow> remote SFTP" where
  "fs_backend cfg l =
     \<lparr>r_c = fs_client, r_p = Path cfg, r_result = fs_result, r_result_timeout = fs_result,
      r_result_wait = fs_result_wait, r_Kill = fs_Kill, r_Layout = l, r_Config = cfg,
      r_Modes_Dir = 448\<rparr>"

section \<open>A repository for the examples\<close>

text \<open>
  A remote side right after \<^verbatim>\<open>Create\<close>: the root and its six directories, no
  configuration file yet, the subprocess running; and the backend opened on it with the
  default layout.
\<close>

definition example_dir :: node where
  "example_dir = \<lparr>n_Mode = ModeDir OR 493, n_Data = []\<rparr>"

definition example_cfg :: Config where
  "example_cfg =
     \<lparr>Host = ''backup.example.org'', User = '''', Path = ''/repo'', Layout_name = ''default'',
      Command = ''''\<rparr>"

definition example_remote :: remote where
  "example_remote =
     \<lparr>files = [(''/'', example_dir), (''/repo'', example_dir), (''/repo/data'', example_dir),
               (''/repo/snapshots'', example_dir), (''/repo/index'', example_dir),
               (''/repo/locks'', example_dir), (''/repo/keys'', example_dir),
               (''/repo/temp'', example_dir)],
      exit_signal = None, requests = []\<rparr>"

definition example_backend :: "remote SFTP" where
  "example_backend = fs_backend example_cfg (DefaultLayout ''/repo'')"

definition example_key :: Handle where
  "example_key = \<lparr>Type = KeyFile, Name = ''k1''\<rparr>"

text \<open>A client whose \<^verbatim>\<open>Close\<close> fails.\<close>

definition failing_close :: "remote \<Rightarrow> error option \<times> remote" where
  "failing_close s = (Some Failure, issue Req_Close s)"

text \<open>
  A client that reports the "no such file" status of \<^verbatim>\<open>Lstat\<close> as the status error
  itself.
\<close>

definition unnormalised_Lstat :: "string \<Rightarrow> remote \<Rightarrow> (error + FileInfo) \<times> remote" where
  "unnormalised_Lstat path s =
     (case node_at s path of
        None \<Rightarrow> (Inl NoSuchFile, issue (Req_Lstat path) s)
      | Some n \<Rightarrow> (Inr (info path n), issue (Req_Lstat path) s))"

text \<open>
  A client whose \<^verbatim>\<open>Chmod\<close> is refused, and one whose \<^verbatim>\<open>Mkdir\<close> fails because
  another caller has just created the directory.
\<close>

definition PermissionDenied :: error where
  "PermissionDenied = StatusError 3 ''Permission denied''"

definition denied_Chmod :: "string \<Rightarrow> FileMode \<Rightarrow> remote \<Rightarrow> error option \<times> remote" where
  "denied_Chmod path mode s = (Some PermissionDenied, issue (Req_Chmod path mode) s)"

definition racing_Mkdir :: "string \<Rightarrow> remote \<Rightarrow> error option \<times> remote" where
  "racing_Mkdir path s =
     (Some Failure,
      issue (Req_Mkdir path)
        (s\<lparr>files := AList.update path \<lparr>n_Mode = ModeDir OR 493, n_Data = []\<rparr> (files s)\<rparr>))"

definition racing_backend :: "remote SFTP" where
  "racing_backend = example_backend\<lparr>r_c := fs_client\<lparr>c_Mkdir := racing_Mkdir\<rparr>\<rparr>"

definition after_race :: remote where
  "after_race =
     example_remote
       \<lparr>files := files example_remote @ [(''/repo/data/ab'', \<lparr>n_Mode = ModeDir OR 448, n_Data = []\<rparr>)],
        requests :=
          [Req_Lstat ''/repo/data/ab'', Req_Lstat ''/repo/data'', Req_Mkdir ''/repo/data/ab'',
           Req_Lstat ''/repo/data/ab'', Req_Chmod ''/repo/data/ab'' 448]\<rparr>"

text \<open>
  A repository with two shard directories of one file each and, between them in the
  listing of \<^verbatim>\<open>data\<close>, an entry that is a file and cannot be listed; and a remote
  side with nothing but its root.
\<close>

definition sharded_remote :: remote where
  "sharded_remote =
     example_remote
       \<lparr>files := files example_remote @
          [(''/repo/data/aa'', example_dir),
           (''/repo/data/aa/aa11'', \<lparr>n_Mode = 292, n_Data = [1]\<rparr>),
           (''/repo/data/bb'', \<lparr>n_Mode = 292, n_Data = [2]\<rparr>),
           (''/repo/data/cc'', example_dir),
           (''/repo/data/cc/cc22'', \<lparr>n_Mode = 292, n_Data = [3]\<rparr>)]\<rparr>"

definition bare_remote :: remote where
  "bare_remote = \<lparr>files = [(''/'', example_dir)], exit_signal = None, requests = []\<rparr>"

text \<open>
  A handle that is not valid, the error of a subprocess that has exited, and a reader of
  three bytes.
\<close>

definition invalid_handle :: Handle where
  "invalid_handle = \<lparr>Type = DataFile, Name = []\<rparr>"

definition exited :: error where
  "exited = Wrapped (ErrorNew ''exit status 255'') ''cmd.Wait''"

definition three_bytes :: Reader where
  "three_bytes = \<lparr>rd_bytes = [1, 2, 3], rd_err = None\<rparr>"

section \<open>Cleaning a path that is already clean in part\<close>

text \<open>
  The backend joins paths that are themselves results of \<^const>\<open>Join\<close>. Cleaning a part
  of a path first does not change the cleaned whole: on the left for any non-empty
  part, on the right for a relative one.
\<close>

lemma split_slash_not_Nil: "split_slash s \<noteq> []"
  by (induction s) (auto split: list.splits)

lemma split_slash_append: "split_slash (a @ slash # b) = split_slash a @ split_slash b"
proof (induction a)
  case Nil
  then show ?case by simp
next
  case (Cons c a)
  then show ?case
    using split_slash_not_Nil [of a]
    by (cases "split_slash a") (auto split: list.splits)
qed

lemma split_slash_no_slash: "slash \<notin> set e \<Longrightarrow> split_slash e = [e]"
  by (induction e) auto

lemma split_slash_elems: "e \<in> set (split_slash s) \<Longrightarrow> slash \<notin> set e"
proof (induction s arbitrary: e)
  case Nil
  then show ?case by simp
next
  case (Cons c s)
  then show ?case
    by (cases "split_slash s") (auto split: if_splits)
qed

lemma split_join_slash:
  "xs \<noteq> [] \<Longrightarrow> (\<And>e. e \<in> set xs \<Longrightarrow> slash \<notin> set e) \<Longrightarrow> split_slash (join_slash xs) = xs"
proof (induction xs rule: join_slash.induct)
  case 1
  then show ?case by simp
next
  case (2 x)
  then show ?case by (simp add: split_slash_no_slash)
next
  case (3 x y ys)
  then show ?case by (simp add: split_slash_append split_slash_no_slash)
qed

lemma join_slash_append:
  "xs \<noteq> [] \<Longrightarrow> zs \<noteq> [] \<Longrightarrow> join_slash (xs @ zs) = join_slash xs @ slash # join_slash zs"
proof (induction xs rule: join_slash.induct)
  case 1
  then show ?case by simp
next
  case (2 x)
  then show ?case by (cases zs) auto
next
  case (3 x y ys)
  then show ?case by simp
qed

lemma proper_clean_elem: "proper out \<Longrightarrow> slash \<notin> set e \<Longrightarrow> proper (clean_elem r out e)"
  by (cases out) (auto simp: proper_def)

lemma no_dotdot_clean_elem: "no_dotdot out \<Longrightarrow> no_dotdot (clean_elem True out e)"
  by (cases out) (auto simp: no_dotdot_def)

lemma clean_elem_name:
  "e \<noteq> [] \<Longrightarrow> e \<noteq> ''.'' \<Longrightarrow> e \<noteq> ''..'' \<Longrightarrow> clean_elem r out e = e # out"
  by simp

lemma clean_elem_skip: "clean_elem r out [] = out" "clean_elem r out ''.'' = out"
  by simp_all

lemma clean_elem_pop: "t \<noteq> ''..'' \<Longrightarrow> clean_elem r (t # ts) ''..'' = ts"
  by simp

lemma clean_elem_dotdot_rel:
  "clean_elem False [] ''..'' = [''..'']" "clean_elem False (''..'' # ts) ''..'' = ''..'' # ''..'' # ts"
  by simp_all

declare clean_elem.simps [simp del]

lemma proper_foldl:
  "proper out \<Longrightarrow> (\<And>e. e \<in> set es \<Longrightarrow> slash \<notin> set e) \<Longrightarrow> proper (foldl (clean_elem r) out es)"
  by (induction es arbitrary: out) (simp_all add: proper_clean_elem)

lemma no_dotdot_foldl: "no_dotdot out \<Longrightarrow> no_dotdot (foldl (clean_elem True) out es)"
  by (induction es arbitrary: out) (simp_all add: no_dotdot_clean_elem)

lemma replay_names:
  "proper out \<Longrightarrow> no_dotdot out \<Longrightarrow> foldl (clean_elem r) acc (rev out) = out @ acc"
  by (induction out) (auto simp: proper_def no_dotdot_def clean_elem_name)

lemma replay_relative:
  "(\<And>e. e \<in> set es \<Longrightarrow> slash \<notin> set e) \<Longrightarrow>
   foldl (clean_elem r) acc (rev (foldl (clean_elem False) [] es)) = foldl (clean_elem r) acc es"
proof (induction es rule: rev_induct)
  case Nil
  then show ?case by simp
next
  case (snoc e es)
  let ?T = "foldl (clean_elem False) [] es"
  have ih: "foldl (clean_elem r) acc (rev ?T) = foldl (clean_elem r) acc es"
    using snoc by simp
  have pr: "proper ?T"
    using snoc.prems by (intro proper_foldl) (auto simp: proper_def)
  have step: "foldl (clean_elem r) acc (rev (clean_elem False ?T e)) =
              clean_elem r (foldl (clean_elem r) acc (rev ?T)) e"
  proof (cases "e = [] \<or> e = ''.''")
    case True
    then show ?thesis by (auto simp: clean_elem_skip)
  next
    case False
    note name = this
    show ?thesis
    proof (cases "e = ''..''")
      case False
      with name show ?thesis by (simp add: clean_elem_name)
    next
      case True
      show ?thesis
      proof (cases ?T)
        case Nil
        with True show ?thesis by (simp add: clean_elem_dotdot_rel)
      next
        case (Cons t ts)
        with pr have t: "t \<noteq> []" "t \<noteq> ''.''" by (auto simp: proper_def)
        show ?thesis
        proof (cases "t = ''..''")
          case True
          with \<open>e = ''..''\<close> Cons show ?thesis by (simp add: clean_elem_dotdot_rel)
        next
          case False
          with \<open>e = ''..''\<close> Cons t show ?thesis
            by (simp add: clean_elem_pop clean_elem_name)
        qed
      qed
    qed
  qed
  show ?case using ih step by simp
qed


lemma hd_join_slash: "xs \<noteq> [] \<Longrightarrow> hd xs \<noteq> [] \<Longrightarrow> hd (join_slash xs) = hd (hd xs)"
  by (induction xs rule: join_slash.induct) auto

lemma join_slash_not_Nil: "xs \<noteq> [] \<Longrightarrow> hd xs \<noteq> [] \<Longrightarrow> join_slash xs \<noteq> []"
  by (induction xs rule: join_slash.induct) auto

lemma proper_slash: "proper out \<Longrightarrow> e \<in> set (rev out) \<Longrightarrow> slash \<notin> set e"
  by (auto simp: proper_def list_all_iff)

lemma proper_last: "proper out \<Longrightarrow> out \<noteq> [] \<Longrightarrow> hd (rev out) \<noteq> [] \<and> hd (hd (rev out)) \<noteq> slash"
proof -
  assume p: "proper out" and n: "out \<noteq> []"
  then have "hd (rev out) \<in> set out" by (metis hd_in_set rev_is_Nil_conv set_rev)
  with p have "hd (rev out) \<noteq> []" "slash \<notin> set (hd (rev out))"
    by (auto simp: proper_def list_all_iff)
  then show ?thesis by (metis hd_in_set)
qed

lemma Clean_fold:
  "x \<noteq> [] \<Longrightarrow> Clean x = clean_out (hd x = slash) (foldl (clean_elem (hd x = slash)) [] (split_slash x))"
  by (simp add: Clean_def Let_def)

lemma Clean_not_Nil: "Clean x \<noteq> []"
proof (cases "x = []")
  case True
  then show ?thesis by (simp add: Clean_def)
next
  case False
  let ?r = "hd x = slash"
  let ?T = "foldl (clean_elem ?r) [] (split_slash x)"
  have pr: "proper ?T"
    by (intro proper_foldl) (auto simp: proper_def split_slash_elems)
  show ?thesis
  proof (cases "?T = []")
    case True
    with False show ?thesis by (simp add: Clean_fold clean_out_def)
  next
    case nT: False
    with pr proper_last have "hd (rev ?T) \<noteq> []" by blast
    with nT have "join_slash (rev ?T) \<noteq> []" by (intro join_slash_not_Nil) auto
    with False show ?thesis by (cases "hd x = slash") (simp_all add: Clean_fold clean_out_def)
  qed
qed

lemma hd_Clean: "x \<noteq> [] \<Longrightarrow> (hd (Clean x) = slash) = (hd x = slash)"
proof -
  assume x: "x \<noteq> []"
  let ?r = "hd x = slash"
  let ?T = "foldl (clean_elem ?r) [] (split_slash x)"
  have pr: "proper ?T"
    by (intro proper_foldl) (auto simp: proper_def split_slash_elems)
  show ?thesis
  proof (cases ?r)
    case True
    with x show ?thesis by (simp add: Clean_fold clean_out_def)
  next
    case rel: False
    show ?thesis
    proof (cases "?T = []")
      case True
      with x rel show ?thesis by (simp add: Clean_fold clean_out_def slash_def)
    next
      case nT: False
      with pr proper_last have l: "hd (rev ?T) \<noteq> []" "hd (hd (rev ?T)) \<noteq> slash" by blast+
      with nT have "hd (join_slash (rev ?T)) \<noteq> slash" by (simp add: hd_join_slash)
      with x rel nT show ?thesis by (simp add: Clean_fold clean_out_def)
    qed
  qed
qed

lemma split_Clean_relative:
  assumes "x \<noteq> []" "hd x \<noteq> slash"
  shows "foldl (clean_elem r) acc (split_slash (Clean x)) = foldl (clean_elem r) acc (split_slash x)"
proof -
  let ?T = "foldl (clean_elem False) [] (split_slash x)"
  have pr: "proper ?T"
    by (intro proper_foldl) (auto simp: proper_def split_slash_elems)
  have rp: "foldl (clean_elem r) acc (rev ?T) = foldl (clean_elem r) acc (split_slash x)"
    by (intro replay_relative) (simp add: split_slash_elems)
  show ?thesis
  proof (cases "?T = []")
    case True
    with assms have "Clean x = ''.''" by (simp add: Clean_fold clean_out_def)
    with rp True show ?thesis by (simp add: slash_def clean_elem_skip)
  next
    case False
    with assms have c: "Clean x = join_slash (rev ?T)" by (simp add: Clean_fold clean_out_def)
    have "split_slash (join_slash (rev ?T)) = rev ?T"
      using False pr by (intro split_join_slash) (auto simp: proper_def list_all_iff)
    with c rp show ?thesis by simp
  qed
qed

lemma split_Clean_rooted:
  assumes "x \<noteq> []" "hd x = slash"
  shows "foldl (clean_elem True) [] (split_slash (Clean x)) = foldl (clean_elem True) [] (split_slash x)"
proof -
  let ?T = "foldl (clean_elem True) [] (split_slash x)"
  have pr: "proper ?T"
    by (intro proper_foldl) (auto simp: proper_def split_slash_elems)
  have nd: "no_dotdot ?T"
    by (intro no_dotdot_foldl) (simp add: no_dotdot_def)
  have rp: "foldl (clean_elem True) [] (rev ?T) = ?T"
    using replay_names [OF pr nd, of True "[]"] by simp
  from assms have c: "Clean x = slash # join_slash (rev ?T)" by (simp add: Clean_fold clean_out_def)
  show ?thesis
  proof (cases "?T = []")
    case True
    with c show ?thesis by (simp add: clean_elem_skip)
  next
    case False
    have "split_slash (join_slash (rev ?T)) = rev ?T"
      using False pr by (intro split_join_slash) (auto simp: proper_def list_all_iff)
    with c rp show ?thesis by (simp add: clean_elem_skip)
  qed
qed


lemma Clean_left:
  assumes "x \<noteq> []"
  shows "Clean (Clean x @ slash # y) = Clean (x @ slash # y)"
proof -
  have h: "(hd (Clean x) = slash) = (hd x = slash)" using assms by (rule hd_Clean)
  have n: "Clean x \<noteq> []" by (rule Clean_not_Nil)
  have f: "foldl (clean_elem (hd x = slash)) [] (split_slash (Clean x)) =
           foldl (clean_elem (hd x = slash)) [] (split_slash x)"
  proof (cases "hd x = slash")
    case True
    with assms show ?thesis by (simp add: split_Clean_rooted)
  next
    case False
    with assms show ?thesis by (simp add: split_Clean_relative)
  qed
  have "Clean (Clean x @ slash # y) =
        clean_out (hd x = slash)
          (foldl (clean_elem (hd x = slash)) [] (split_slash (Clean x) @ split_slash y))"
    using n h by (simp add: Clean_fold [of "Clean x @ slash # y"] split_slash_append)
  also have "\<dots> = Clean (x @ slash # y)"
    using assms f by (simp add: Clean_fold [of "x @ slash # y"] split_slash_append)
  finally show ?thesis .
qed

lemma Clean_right:
  assumes "p \<noteq> []" "y \<noteq> []" "hd y \<noteq> slash"
  shows "Clean (p @ slash # Clean y) = Clean (p @ slash # y)"
proof -
  have "Clean (p @ slash # Clean y) =
        clean_out (hd p = slash)
          (foldl (clean_elem (hd p = slash)) (foldl (clean_elem (hd p = slash)) [] (split_slash p))
             (split_slash (Clean y)))"
    using assms by (simp add: Clean_fold [of "p @ slash # Clean y"] split_slash_append)
  also have "\<dots> = Clean (p @ slash # y)"
    using assms
    by (simp add: Clean_fold [of "p @ slash # y"] split_slash_append split_Clean_relative)
  finally show ?thesis .
qed

lemma Clean_idem: "Clean (Clean x) = Clean x"
proof (cases "x = []")
  case True
  then show ?thesis by (simp add: Clean_def clean_out_def slash_def clean_elem.simps)
next
  case False
  have h: "(hd (Clean x) = slash) = (hd x = slash)" using False by (rule hd_Clean)
  have n: "Clean x \<noteq> []" by (rule Clean_not_Nil)
  have f: "foldl (clean_elem (hd x = slash)) [] (split_slash (Clean x)) =
           foldl (clean_elem (hd x = slash)) [] (split_slash x)"
  proof (cases "hd x = slash")
    case True
    with False show ?thesis by (simp add: split_Clean_rooted)
  next
    case rel: False
    with False show ?thesis by (simp add: split_Clean_relative)
  qed
  have "Clean (Clean x) = clean_out (hd x = slash) (foldl (clean_elem (hd x = slash)) [] (split_slash (Clean x)))"
    using n h by (simp add: Clean_fold [of "Clean x"])
  also have "\<dots> = Clean x" using False f by (simp add: Clean_fold [of x])
  finally show ?thesis .
qed


lemma Join_Clean:
  assumes "\<exists>x\<in>set xs. x \<noteq> []"
  shows "Join xs = Clean (join_slash (dropWhile (\<lambda>e. e = []) xs))"
proof -
  from assms have "dropWhile (\<lambda>e. e = []) xs \<noteq> []" by (simp add: dropWhile_eq_Nil_conv)
  then obtain e es where d: "dropWhile (\<lambda>e. e = []) xs = e # es" by (cases "dropWhile (\<lambda>e. e = []) xs") auto
  then show ?thesis by (simp add: Join_def path_Join_def Clean_idem)
qed

lemma join_dropWhile_not_Nil:
  assumes "\<exists>x\<in>set xs. x \<noteq> []"
  shows "join_slash (dropWhile (\<lambda>e. e = []) xs) \<noteq> []"
proof -
  from assms have n: "dropWhile (\<lambda>e. e = []) xs \<noteq> []" by (simp add: dropWhile_eq_Nil_conv)
  then have "hd (dropWhile (\<lambda>e. e = []) xs) \<noteq> []" by (rule hd_dropWhile)
  with n show ?thesis by (rule join_slash_not_Nil)
qed

lemma Join_not_Nil: "Join xs \<noteq> []"
  by (simp add: Join_def Clean_not_Nil)

lemma Join_nest_left:
  assumes "\<exists>x\<in>set xs. x \<noteq> []"
  shows "Join (Join xs # ys) = Join (xs @ ys)"
proof -
  let ?D = "dropWhile (\<lambda>e. e = []) xs"
  have X: "Join xs = Clean (join_slash ?D)" using assms by (rule Join_Clean)
  have Dn: "?D \<noteq> []" using assms by (simp add: dropWhile_eq_Nil_conv)
  have Jn: "join_slash ?D \<noteq> []" using assms by (rule join_dropWhile_not_Nil)
  have L: "Join (Join xs # ys) = Clean (join_slash (Join xs # ys))"
    using Join_Clean [of "Join xs # ys"] by (simp add: Join_not_Nil)
  from assms obtain x where x: "x \<in> set xs" "x \<noteq> []" by blast
  have dw: "dropWhile (\<lambda>e. e = []) (xs @ ys) = ?D @ ys"
    using x by (intro dropWhile_append1) auto
  have R: "Join (xs @ ys) = Clean (join_slash (?D @ ys))"
    using Join_Clean [of "xs @ ys"] assms dw by auto
  show ?thesis
  proof (cases ys)
    case Nil
    with L R X show ?thesis by (simp add: Clean_idem)
  next
    case (Cons y ys')
    have "join_slash (Join xs # ys) = Clean (join_slash ?D) @ slash # join_slash ys"
      using Cons X by simp
    moreover have "join_slash (?D @ ys) = join_slash ?D @ slash # join_slash ys"
      using Dn Cons by (intro join_slash_append) auto
    ultimately show ?thesis using L R Jn by (simp add: Clean_left)
  qed
qed

lemma Join_nest_right:
  assumes "y \<noteq> []" "hd y \<noteq> slash"
  shows "Join [p, Join (y # ys)] = Join (p # y # ys)"
proof -
  let ?Y = "join_slash (y # ys)"
  have Yn: "?Y \<noteq> []" using assms by (intro join_slash_not_Nil) auto
  have Yh: "hd ?Y \<noteq> slash" using assms by (simp add: hd_join_slash)
  have Y: "Join (y # ys) = Clean ?Y" using Join_Clean [of "y # ys"] assms by simp
  show ?thesis
  proof (cases "p = []")
    case True
    have "Join [p, Join (y # ys)] = Clean (Clean ?Y)"
      using Join_Clean [of "[p, Join (y # ys)]"] True Y by (simp add: Clean_not_Nil)
    moreover have "Join (p # y # ys) = Clean ?Y"
      using Join_Clean [of "p # y # ys"] True assms by simp
    ultimately show ?thesis by (simp add: Clean_idem)
  next
    case False
    have "Join [p, Join (y # ys)] = Clean (p @ slash # Clean ?Y)"
      using Join_Clean [of "[p, Join (y # ys)]"] False Y by simp
    moreover have "Join (p # y # ys) = Clean (p @ slash # ?Y)"
      using Join_Clean [of "p # y # ys"] False by simp
    ultimately show ?thesis using False Yn Yh by (simp add: Clean_right)
  qed
qed

lemma hd_take2: "length n > 2 \<Longrightarrow> take 2 n \<noteq> []"
  by (cases n) auto

lemma dirname_data_shard:
  assumes "length n > 2"
  shows "Join [p, Join [''data'', take 2 n]] = Join [p, ''data'', take 2 n]"
  by (rule Join_nest_right) (simp_all add: slash_def)


section \<open>The path of a handle\<close>

text \<open>
  Claim C6. For every handle the path computed by \<^verbatim>\<open>filename\<close> is the root joined with
  \<^verbatim>\<open>config\<close> for Config (the name is ignored); the root, \<^verbatim>\<open>data\<close>, the first two
  bytes of the name and the name for a Data handle whose name is longer than two
  bytes; the root, \<^verbatim>\<open>data\<close> and the name for a Data handle with a shorter name; and
  the root, the directory of the type and the name for the four other types. Each is
  one join of its components with join-and-clean semantics, although the code joins
  and cleans in steps. For a type outside the six the code joins the cleaned root with
  the name.
\<close>

theorem filename_paths:
  "filename r h =
     (case Type h of
        ConfigFile \<Rightarrow> Join [r_p r, ''config'']
      | DataFile \<Rightarrow>
          (if length (Name h) > 2 then Join [r_p r, ''data'', take 2 (Name h), Name h]
           else Join [r_p r, ''data'', Name h])
      | SnapshotFile \<Rightarrow> Join [r_p r, ''snapshots'', Name h]
      | IndexFile \<Rightarrow> Join [r_p r, ''index'', Name h]
      | LockFile \<Rightarrow> Join [r_p r, ''locks'', Name h]
      | KeyFile \<Rightarrow> Join [r_p r, ''keys'', Name h]
      | OtherType t \<Rightarrow> Join [Join [r_p r, []], Name h])"
proof (cases "Type h")
  case DataFile
  show ?thesis
  proof (cases "length (Name h) > 2")
    case True
    have "Join [Join [r_p r, Join [''data'', take 2 (Name h)]], Name h] =
          Join [Join [r_p r, ''data'', take 2 (Name h)], Name h]"
      using True by (simp add: dirname_data_shard)
    also have "\<dots> = Join ([r_p r, ''data'', take 2 (Name h)] @ [Name h])"
      by (rule Join_nest_left) simp
    finally show ?thesis
      using DataFile True by (simp add: filename_def dirname_def Paths_Data_def)
  next
    case False
    have "Join [Join [r_p r, ''data''], Name h] = Join ([r_p r, ''data''] @ [Name h])"
      by (rule Join_nest_left) simp
    then show ?thesis
      using DataFile False by (simp add: filename_def dirname_def Paths_Data_def)
  qed
next
  case SnapshotFile
  have "Join [Join [r_p r, ''snapshots''], Name h] = Join ([r_p r, ''snapshots''] @ [Name h])"
    by (rule Join_nest_left) simp
  then show ?thesis
    using SnapshotFile by (simp add: filename_def dirname_def Paths_Snapshots_def)
next
  case IndexFile
  have "Join [Join [r_p r, ''index''], Name h] = Join ([r_p r, ''index''] @ [Name h])"
    by (rule Join_nest_left) simp
  then show ?thesis
    using IndexFile by (simp add: filename_def dirname_def Paths_Index_def)
next
  case LockFile
  have "Join [Join [r_p r, ''locks''], Name h] = Join ([r_p r, ''locks''] @ [Name h])"
    by (rule Join_nest_left) simp
  then show ?thesis
    using LockFile by (simp add: filename_def dirname_def Paths_Locks_def)
next
  case KeyFile
  have "Join [Join [r_p r, ''keys''], Name h] = Join ([r_p r, ''keys''] @ [Name h])"
    by (rule Join_nest_left) simp
  then show ?thesis
    using KeyFile by (simp add: filename_def dirname_def Paths_Keys_def)
next
  case ConfigFile
  then show ?thesis by (simp add: filename_def)
next
  case (OtherType t)
  then show ?thesis by (simp add: filename_def dirname_def)
qed

section \<open>Closing the backend\<close>

lemma Close_unfold:
  "Close (Some r) s =
     (case r_result_timeout r (snd (c_Close (r_c r) s)) of
        (Some errExit, s2) \<Rightarrow> Some (errExit, s2)
      | (None, s2) \<Rightarrow>
          (case r_Kill r s2 of
             (Some errKill, s3) \<Rightarrow> Some (Some errKill, s3)
           | (None, s3) \<Rightarrow> map_option (\<lambda>(errIgnored, s4). (None, s4)) (r_result_wait r s3)))"
  by (simp add: Close_def split: prod.splits option.splits)

text \<open>
  Claim C10. On a backend that is not \<^verbatim>\<open>nil\<close>, \<^verbatim>\<open>Close\<close> returns the error received
  from the channel when the subprocess exits within the timeout, else the error of the
  forced kill, else \<^verbatim>\<open>nil\<close> after a successful kill. The error of closing the
  protocol session is in none of them: a client whose \<^verbatim>\<open>Close\<close> leaves the world in
  the same state and reports another error makes \<^verbatim>\<open>Close\<close> return the same.
\<close>

theorem Close_discards_session_error:
  "Close (Some r) s =
     (case r_result_timeout r (snd (c_Close (r_c r) s)) of
        (Some errExit, s2) \<Rightarrow> Some (errExit, s2)
      | (None, s2) \<Rightarrow>
          (case r_Kill r s2 of
             (Some errKill, s3) \<Rightarrow> Some (Some errKill, s3)
           | (None, s3) \<Rightarrow> map_option (\<lambda>(errIgnored, s4). (None, s4)) (r_result_wait r s3)))
   \<and> (\<forall>c'. snd (c_Close c' s) = snd (c_Close (r_c r) s) \<longrightarrow>
          Close (Some (r\<lparr>r_c := c'\<rparr>)) s = Close (Some r) s)"
  by (simp add: Close_unfold split: prod.splits option.splits)

theorem Close_discards_session_error_witness:
  "Close (Some (example_backend\<lparr>r_c := fs_client\<lparr>c_Close := failing_close\<rparr>\<rparr>)) example_remote =
     Close (Some example_backend) example_remote
   \<and> Close (Some (example_backend\<lparr>r_c := fs_client\<lparr>c_Close := failing_close\<rparr>\<rparr>)) example_remote =
     Some (None, example_remote\<lparr>requests := [Req_Close]\<rparr>)"
proof -
  have "snd (c_Close (fs_client\<lparr>c_Close := failing_close\<rparr>) example_remote) =
        snd (c_Close (r_c example_backend) example_remote)"
    by (simp add: failing_close_def example_backend_def fs_backend_def fs_client_def fs_Close_def)
  with Close_discards_session_error [of example_backend example_remote]
  have "Close (Some (example_backend\<lparr>r_c := fs_client\<lparr>c_Close := failing_close\<rparr>\<rparr>)) example_remote =
        Close (Some example_backend) example_remote" by blast
  moreover have "Close (Some example_backend) example_remote = Some (None, example_remote\<lparr>requests := [Req_Close]\<rparr>)"
    by (simp add: Close_def example_backend_def fs_backend_def fs_client_def fs_Close_def fs_result_def
        fs_Kill_def fs_result_wait_def issue_def example_remote_def)
  ultimately show ?thesis by simp
qed

section \<open>Testing for a file\<close>

text \<open>
  Claim C4, as amended. When the health check passes, \<^verbatim>\<open>Test\<close> returns
  \<^verbatim>\<open>(true, nil)\<close> after a successful stat, \<^verbatim>\<open>(false, nil)\<close> exactly when the cause
  of the stat's error satisfies \<^verbatim>\<open>os.IsNotExist\<close> of the standard library, and
  \<^verbatim>\<open>(false, err)\<close> with the error wrapped as \<^verbatim>\<open>Lstat\<close> for every other failure.
  The backend's own predicate \<^verbatim>\<open>IsNotExist\<close> is not what \<^verbatim>\<open>Test\<close> asks.
\<close>

theorem Test_classification:
  assumes "clientError r s = (None, s1)" and "c_Lstat (r_c r) (filename r h) s1 = (res, s2)"
  shows "Test r h s =
           (case res of
              Inr fi \<Rightarrow> ((True, None), s2)
            | Inl e \<Rightarrow>
                (if os_IsNotExist (Some (Cause_err e)) then ((False, None), s2)
                 else ((False, Some (Wrapped e ''Lstat'')), s2)))"
  using assms by (simp add: Test_def Cause_def Wrap_def os_IsNotExist_def split: sum.splits)

theorem Test_classification_witness:
  "Test example_backend example_key example_remote =
     ((False, None), example_remote\<lparr>requests := [Req_Lstat ''/repo/keys/k1'']\<rparr>)"
proof -
  have a: "clientError example_backend example_remote = (None, example_remote)"
    by code_simp
  have b: "c_Lstat (r_c example_backend) (filename example_backend example_key) example_remote =
           (Inl ErrNotExist, example_remote\<lparr>requests := [Req_Lstat ''/repo/keys/k1'']\<rparr>)"
    by code_simp
  show ?thesis using Test_classification [OF a b] by (simp add: os_IsNotExist_def)
qed

lemma Test_dead_client:
  "clientError r s = (Some err, s1) \<Longrightarrow> Test r h s = ((False, Some err), s1)"
  by (simp add: Test_def)

text \<open>
  The claim as stated fails both ways. For a file that is not there the client returns
  \<^verbatim>\<open>os.ErrNotExist\<close>: \<^verbatim>\<open>Test\<close> answers \<^verbatim>\<open>(false, nil)\<close>, and \<^verbatim>\<open>IsNotExist\<close> is
  false of that error. From a client that returns the status error itself, \<^verbatim>\<open>Test\<close>
  returns the wrapped error, and \<^verbatim>\<open>IsNotExist\<close> is true of it.
\<close>

theorem Test_not_by_IsNotExist:
  "fst (c_Lstat fs_client (filename example_backend example_key) example_remote) = Inl ErrNotExist
   \<and> fst (Test example_backend example_key example_remote) = (False, None)
   \<and> \<not> IsNotExist (Some ErrNotExist)
   \<and> fst (unnormalised_Lstat (filename example_backend example_key) example_remote) = Inl NoSuchFile
   \<and> fst (Test (example_backend\<lparr>r_c := fs_client\<lparr>c_Lstat := unnormalised_Lstat\<rparr>\<rparr>) example_key example_remote)
       = (False, Some (Wrapped NoSuchFile ''Lstat''))
   \<and> IsNotExist (Some NoSuchFile)"
  by code_simp

section \<open>Creating directories\<close>

text \<open>
  Claim C8, as amended. \<^verbatim>\<open>mkdirAll\<close> succeeds at once, with no further call, if the
  path exists and is a directory, and fails if it exists and is not a directory.
  Otherwise, if the call for the parent returns, it attempts the create and stats the
  path again whatever the call for the parent and the create returned: when that stat
  reports a directory the result is the result of setting the directory's mode
  (success when the chmod succeeds, the chmod's error otherwise), when it fails the
  error carries both earlier errors, and when it reports something else the error says
  so. If the call for the parent never returns, neither does this one.
\<close>

theorem mkdirAll_cases:
  "(c_Lstat (r_c r) dir s = (Inr fi, s1) \<and> IsDir fi \<longrightarrow>
      mkdirAll r dir mode s = Some (None, s1))
   \<and> (c_Lstat (r_c r) dir s = (Inr fi, s1) \<and> \<not> IsDir fi \<longrightarrow>
      mkdirAll r dir mode s =
        Some (Some (Errorf (''mkdirAll('' @ dir @ ''): entry exists but is not a directory'') []), s1))
   \<and> (c_Lstat (r_c r) dir s = (Inl err, s1) \<and> mkdirAll r (path_Dir dir) (r_Modes_Dir r) s1 = None \<longrightarrow>
      mkdirAll r dir mode s = None)
   \<and> (c_Lstat (r_c r) dir s = (Inl err, s1)
       \<and> mkdirAll r (path_Dir dir) (r_Modes_Dir r) s1 = Some (errMkdirAll, s2)
       \<and> c_Mkdir (r_c r) dir s2 = (errMkdir, s3) \<longrightarrow>
      mkdirAll r dir mode s =
        (case c_Lstat (r_c r) dir s3 of
           (Inl err', s4) \<Rightarrow>
             Some (Some (Errorf (''mkdirAll('' @ dir @ ''): unable to create directories: %v, %v'')
                           [errMkdirAll, errMkdir]), s4)
         | (Inr fi', s4) \<Rightarrow>
             (if IsDir fi' then Some (c_Chmod (r_c r) dir mode s4)
              else Some (Some (Errorf (''mkdirAll('' @ dir @ ''): entry exists but is not a directory'') []),
                         s4))))"
  by (simp add: mkdirAll.simps [of r dir mode s] split: prod.splits sum.splits)

text \<open>
  Another caller creates the shard directory first, so that the create fails: the call
  succeeds all the same.
\<close>

theorem mkdirAll_cases_witness:
  "mkdirAll racing_backend ''/repo/data/ab'' 448 example_remote = Some (None, after_race)
   \<and> mkdirAll racing_backend ''/repo/data'' 448 example_remote =
       Some (None, example_remote\<lparr>requests := [Req_Lstat ''/repo/data'']\<rparr>)"
proof -
  let ?s1 = "example_remote\<lparr>requests := [Req_Lstat ''/repo/data/ab'']\<rparr>"
  let ?s2 = "example_remote\<lparr>requests := [Req_Lstat ''/repo/data/ab'', Req_Lstat ''/repo/data'']\<rparr>"
  let ?s3 = "snd (c_Mkdir (r_c racing_backend) ''/repo/data/ab'' ?s2)"
  have l0: "c_Lstat (r_c racing_backend) ''/repo/data'' example_remote =
            (Inr (info ''/repo/data'' example_dir), example_remote\<lparr>requests := [Req_Lstat ''/repo/data'']\<rparr>)"
    by code_simp
  have d0: "IsDir (info ''/repo/data'' example_dir)" by code_simp
  have l1: "c_Lstat (r_c racing_backend) ''/repo/data/ab'' example_remote = (Inl ErrNotExist, ?s1)"
    by code_simp
  have p: "mkdirAll racing_backend (path_Dir ''/repo/data/ab'') (r_Modes_Dir racing_backend) ?s1 =
           Some (None, ?s2)"
    by code_simp
  have m: "c_Mkdir (r_c racing_backend) ''/repo/data/ab'' ?s2 = (Some Failure, ?s3)"
    by code_simp
  have l2: "(case c_Lstat (r_c racing_backend) ''/repo/data/ab'' ?s3 of
               (Inl err', s4) \<Rightarrow>
                 Some (Some (Errorf (''mkdirAll('' @ ''/repo/data/ab'' @ ''): unable to create directories: %v, %v'')
                               [None, Some Failure]), s4)
             | (Inr fi', s4) \<Rightarrow>
                 (if IsDir fi' then Some (c_Chmod (r_c racing_backend) ''/repo/data/ab'' 448 s4)
                  else Some (Some (Errorf (''mkdirAll('' @ ''/repo/data/ab'' @ ''): entry exists but is not a directory'') []),
                             s4))) = Some (None, after_race)"
    by code_simp
  from mkdirAll_cases [where r = racing_backend and dir = "''/repo/data/ab''" and s = example_remote
      and mode = 448 and err = ErrNotExist and ?s1.0 = ?s1 and errMkdirAll = None and ?s2.0 = ?s2
      and errMkdir = "Some Failure" and ?s3.0 = ?s3] l1 p m l2
  have a: "mkdirAll racing_backend ''/repo/data/ab'' 448 example_remote = Some (None, after_race)"
    by simp
  from mkdirAll_cases [where r = racing_backend and dir = "''/repo/data''" and s = example_remote
      and fi = "info ''/repo/data'' example_dir"
      and ?s1.0 = "example_remote\<lparr>requests := [Req_Lstat ''/repo/data'']\<rparr>" and mode = 448] l0 d0
  have b: "mkdirAll racing_backend ''/repo/data'' 448 example_remote =
       Some (None, example_remote\<lparr>requests := [Req_Lstat ''/repo/data'']\<rparr>)"
    by simp
  from a b show ?thesis by simp
qed

text \<open>
  The claim as stated promises success whenever the stat after the create reports a
  directory. Where the server refuses the chmod the directory is there and the call
  fails with the chmod's error.
\<close>

theorem mkdirAll_chmod_denied:
  "(case mkdirAll (example_backend\<lparr>r_c := fs_client\<lparr>c_Chmod := denied_Chmod\<rparr>\<rparr>) ''/repo/data/ab'' 448
           example_remote of
      None \<Rightarrow> False
    | Some (err, s') \<Rightarrow>
        err = Some PermissionDenied
        \<and> is_dir s' ''/repo/data/ab'')"
  by code_simp

section \<open>Listing\<close>

text \<open>The loop over the shards, run on a list in two parts.\<close>

lemma read_files_append:
  "read_files r basedir (pre @ post) d s =
     (case read_files r basedir pre d s of
        (xs, True, d1, s1) \<Rightarrow> (xs, True, d1, s1)
      | (xs, False, d1, s1) \<Rightarrow>
          (case read_files r basedir post d1 s1 of
             (ys, cancelled, d2, s2) \<Rightarrow> (xs @ ys, cancelled, d2, s2)))"
proof (induction pre arbitrary: d s)
  case Nil
  then show ?case by (simp split: prod.splits)
next
  case (Cons dir pre)
  show ?case
  proof (cases "c_ReadDir (r_c r) (Join [basedir, dir]) s")
    case (Pair res s1)
    show ?thesis
    proof (cases res)
      case (Inl err)
      with Pair Cons.IH [of d s1] show ?thesis by simp
    next
      case (Inr entries)
      obtain sent0 c0 d0 where sd: "send (map fi_Name entries) d = (sent0, c0, d0)"
        by (cases "send (map fi_Name entries) d") auto
      show ?thesis
      proof (cases c0)
        case True
        with Pair Inr sd show ?thesis by simp
      next
        case False
        with Pair Inr sd Cons.IH [of d0 s1] show ?thesis
          by (simp split: prod.splits bool.splits)
      qed
    qed
  qed
qed

text \<open>
  Claim C9. For every type, when listing the directory of the type fails, \<^verbatim>\<open>List\<close>
  yields no name, and it has no error to report. For Data, a shard directory whose
  listing fails yields no name and the shards after it are still listed: when the
  consumer has not cancelled before it, the names are those of the shards before it
  followed by those of the shards after it.
\<close>

theorem List_enumeration_failures:
  "(c_ReadDir (r_c r) (dirname r \<lparr>Type = t, Name = []\<rparr>) s = (Inl e, s1) \<longrightarrow>
      List r t d s = ([], s1))
   \<and> (c_ReadDir (r_c r) (dirname r \<lparr>Type = DataFile, Name = []\<rparr>) s = (Inr list1, s1)
       \<and> map fi_Name list1 = pre @ dir # post
       \<and> read_files r (dirname r \<lparr>Type = DataFile, Name = []\<rparr>) pre d s1 = (xs, False, d1, s2)
       \<and> c_ReadDir (r_c r) (Join [dirname r \<lparr>Type = DataFile, Name = []\<rparr>, dir]) s2 = (Inl e', s3)
       \<and> read_files r (dirname r \<lparr>Type = DataFile, Name = []\<rparr>) post d1 s3 = (ys, cancelled, d2, s4)
      \<longrightarrow> List r DataFile d s = (xs @ ys, s4))"
proof (intro conjI impI)
  assume "c_ReadDir (r_c r) (dirname r \<lparr>Type = t, Name = []\<rparr>) s = (Inl e, s1)"
  then show "List r t d s = ([], s1)" by (auto simp: List_def Let_def)
next
  let ?b = "dirname r \<lparr>Type = DataFile, Name = []\<rparr>"
  assume a: "c_ReadDir (r_c r) ?b s = (Inr list1, s1)
       \<and> map fi_Name list1 = pre @ dir # post
       \<and> read_files r ?b pre d s1 = (xs, False, d1, s2)
       \<and> c_ReadDir (r_c r) (Join [?b, dir]) s2 = (Inl e', s3)
       \<and> read_files r ?b post d1 s3 = (ys, cancelled, d2, s4)"
  then have "read_files r ?b (dir # post) d1 s2 = (ys, cancelled, d2, s4)" by simp
  with a have "read_files r ?b (pre @ dir # post) d s1 = (xs @ ys, cancelled, d2, s4)"
    by (simp add: read_files_append [of r ?b pre "dir # post"] del: read_files.simps)
  with a show "List r DataFile d s = (xs @ ys, s4)" by (simp add: List_def Let_def)
qed

theorem List_enumeration_failures_witness:
  "List example_backend KeyFile None bare_remote = ([], bare_remote\<lparr>requests := [Req_ReadDir ''/repo/keys'']\<rparr>)
   \<and> List example_backend DataFile None sharded_remote =
       ([''aa11''] @ [''cc22''],
        sharded_remote\<lparr>requests := [Req_ReadDir ''/repo/data'', Req_ReadDir ''/repo/data/aa'',
           Req_ReadDir ''/repo/data/bb'', Req_ReadDir ''/repo/data/cc'']\<rparr>)"
proof -
  let ?b = "dirname example_backend \<lparr>Type = DataFile, Name = []\<rparr>"
  let ?s1 = "sharded_remote\<lparr>requests := [Req_ReadDir ''/repo/data'']\<rparr>"
  let ?s2 = "sharded_remote\<lparr>requests := [Req_ReadDir ''/repo/data'', Req_ReadDir ''/repo/data/aa'']\<rparr>"
  let ?s3 = "sharded_remote\<lparr>requests := [Req_ReadDir ''/repo/data'', Req_ReadDir ''/repo/data/aa'',
           Req_ReadDir ''/repo/data/bb'']\<rparr>"
  let ?s4 = "sharded_remote\<lparr>requests := [Req_ReadDir ''/repo/data'', Req_ReadDir ''/repo/data/aa'',
           Req_ReadDir ''/repo/data/bb'', Req_ReadDir ''/repo/data/cc'']\<rparr>"
  let ?l = "fst (fs_ReadDir ''/repo/data'' sharded_remote)"
  have k: "c_ReadDir (r_c example_backend) (dirname example_backend \<lparr>Type = KeyFile, Name = []\<rparr>) bare_remote =
        (Inl NoSuchFile, bare_remote\<lparr>requests := [Req_ReadDir ''/repo/keys'']\<rparr>)"
    by code_simp
  obtain list1 where l: "c_ReadDir (r_c example_backend) ?b sharded_remote = (Inr list1, ?s1)"
    and n: "map fi_Name list1 = [''aa''] @ ''bb'' # [''cc'']"
  proof
    show "c_ReadDir (r_c example_backend) ?b sharded_remote =
       (Inr [info ''/repo/data/aa'' example_dir, info ''/repo/data/bb'' \<lparr>n_Mode = 292, n_Data = [2]\<rparr>,
             info ''/repo/data/cc'' example_dir], ?s1)"
      by code_simp
    show "map fi_Name [info ''/repo/data/aa'' example_dir, info ''/repo/data/bb'' \<lparr>n_Mode = 292, n_Data = [2]\<rparr>,
             info ''/repo/data/cc'' example_dir] = [''aa''] @ ''bb'' # [''cc'']"
      by code_simp
  qed
  have p: "read_files example_backend ?b [''aa''] None ?s1 = ([''aa11''], False, None, ?s2)"
    by code_simp
  have f: "c_ReadDir (r_c example_backend) (Join [?b, ''bb'']) ?s2 = (Inl Failure, ?s3)"
    by code_simp
  have q: "read_files example_backend ?b [''cc''] None ?s3 = ([''cc22''], False, None, ?s4)"
    by code_simp
  from List_enumeration_failures [where r = example_backend and t = KeyFile and s = bare_remote
      and e = NoSuchFile and ?s1.0 = "bare_remote\<lparr>requests := [Req_ReadDir ''/repo/keys'']\<rparr>" and d = None] k
  have A: "List example_backend KeyFile None bare_remote = ([], bare_remote\<lparr>requests := [Req_ReadDir ''/repo/keys'']\<rparr>)"
    by blast
  from List_enumeration_failures [where r = example_backend and s = sharded_remote and ?list1.0 = list1
      and ?s1.0 = ?s1 and pre = "[''aa'']" and dir = "''bb''" and post = "[''cc'']" and d = None
      and xs = "[''aa11'']" and ?d1.0 = None and ?s2.0 = ?s2 and e' = Failure and ?s3.0 = ?s3
      and ys = "[''cc22'']" and cancelled = False and ?d2.0 = None and ?s4.0 = ?s4] l n p f q
  have B: "List example_backend DataFile None sharded_remote = ([''aa11''] @ [''cc22''], ?s4)"
    by blast
  from A B show ?thesis by simp
qed

section \<open>Handles that are not valid\<close>

text \<open>
  Claim C3, as amended. For \<^verbatim>\<open>Save\<close>, \<^verbatim>\<open>Stat\<close> and \<^verbatim>\<open>Load\<close>, a handle that is
  not valid makes the operation fail before any call of the client: \<^verbatim>\<open>Load\<close> with
  the validation error and the world unchanged; \<^verbatim>\<open>Save\<close> and \<^verbatim>\<open>Stat\<close>, which run
  the health check first, with the error of the health check when the subprocess has
  exited and with the validation error otherwise. No call is issued: whatever client
  the backend has, the operation returns the same.
\<close>

theorem invalid_handle_rejected:
  assumes "Valid h = Some err"
  shows "Load r h len offset s = (Inl err, s)
    \<and> Save r h rd s =
        Some (case clientError r s of (Some errExit, s1) \<Rightarrow> (Some errExit, s1) | (None, s1) \<Rightarrow> (Some err, s1))
    \<and> Stat r h s =
        (case clientError r s of (Some errExit, s1) \<Rightarrow> (Inl errExit, s1) | (None, s1) \<Rightarrow> (Inl err, s1))
    \<and> (\<forall>c'. Load (r\<lparr>r_c := c'\<rparr>) h len offset s = Load r h len offset s
            \<and> Save (r\<lparr>r_c := c'\<rparr>) h rd s = Save r h rd s
            \<and> Stat (r\<lparr>r_c := c'\<rparr>) h s = Stat r h s)"
  using assms
  by (simp add: Load_def Save_def Stat_def clientError_def split: prod.splits option.splits)

theorem invalid_handle_rejected_witness:
  "Valid invalid_handle = Some (ErrorNew ''invalid Name'')
   \<and> Load example_backend invalid_handle 0 0 example_remote = (Inl (ErrorNew ''invalid Name''), example_remote)
   \<and> Save example_backend invalid_handle three_bytes example_remote =
       Some (Some (ErrorNew ''invalid Name''), example_remote)
   \<and> Stat example_backend invalid_handle example_remote = (Inl (ErrorNew ''invalid Name''), example_remote)"
proof -
  have v: "Valid invalid_handle = Some (ErrorNew ''invalid Name'')" by code_simp
  have c: "clientError example_backend example_remote = (None, example_remote)" by code_simp
  from invalid_handle_rejected [OF v, of example_backend 0 0 example_remote three_bytes] v c
  show ?thesis by simp
qed

text \<open>
  The claim as stated also covers \<^verbatim>\<open>Test\<close> and \<^verbatim>\<open>Remove\<close>, and promises the
  validation error. With a Data handle whose name is empty, \<^verbatim>\<open>Test\<close> stats the
  \<^verbatim>\<open>data\<close> directory and answers that the file exists, and \<^verbatim>\<open>Remove\<close> removes
  that directory; after the subprocess has exited, \<^verbatim>\<open>Save\<close> and \<^verbatim>\<open>Stat\<close> return
  its error and not the validation error.
\<close>

theorem invalid_handle_reaches_remote:
  "Valid invalid_handle = Some (ErrorNew ''invalid Name'')
   \<and> Test example_backend invalid_handle example_remote =
       ((True, None), example_remote\<lparr>requests := [Req_Lstat ''/repo/data'']\<rparr>)
   \<and> Remove example_backend invalid_handle example_remote =
       (None, example_remote\<lparr>files := AList.delete ''/repo/data'' (files example_remote),
                              requests := [Req_Remove ''/repo/data'']\<rparr>)
   \<and> Save example_backend invalid_handle three_bytes (example_remote\<lparr>exit_signal := Some (Some exited)\<rparr>) =
       Some (Some exited, example_remote)
   \<and> Stat example_backend invalid_handle (example_remote\<lparr>exit_signal := Some (Some exited)\<rparr>) =
       (Inl exited, example_remote)"
  by code_simp

end
